theory Spec2Isabelle
  imports Complex_Main "HOL-Library.Log_Nat"
begin

section \<open>JavaScript numbers\<close>

text \<open>
  A JavaScript number is an IEEE double: a rational that the double format represents, or
  one of the three non-finite values. The type below admits every rational; the products
  and quotients of the program are rounded to the nearest double (\<open>to_double\<close>), so what
  the arithmetic returns is always a double. The sign of zero is not distinguished: a zero
  divisor counts as \<open>+0\<close>, and a result that underflows is \<open>0\<close>.
\<close>

datatype jsnum = JNum rat | NaN | PosInf | NegInf

text \<open>\<open>2\<close> to an integer power.\<close>

definition pow2 :: "int \<Rightarrow> rat" where
  "pow2 k = (if 0 \<le> k then 2 ^ nat k else 1 / 2 ^ nat (- k))"

text \<open>
  The binary exponent of a positive rational \<open>a\<close>, that is the \<open>k\<close> with
  \<open>2^k \<le> a < 2^(k+1)\<close>, from the bit lengths of numerator and denominator.
\<close>

definition ilog2 :: "rat \<Rightarrow> int" where
  "ilog2 a = (let k = bitlen (fst (quotient_of a)) - bitlen (snd (quotient_of a))
              in if pow2 k \<le> a then k else k - 1)"

text \<open>The nearest integer, a tie going to the even one.\<close>

definition round_half_even :: "rat \<Rightarrow> int" where
  "round_half_even m =
     (let f = \<lfloor>m\<rfloor>; d = m - of_int f
      in if d < 1 / 2 then f else if 1 / 2 < d then f + 1 else if even f then f else f + 1)"

text \<open>
  Rounding to the nearest double (53 significant bits, exponents from \<open>-1022\<close>, gradual
  underflow, overflow to infinity from \<open>2^1024\<close>).
\<close>

definition to_double :: "rat \<Rightarrow> jsnum" where
  "to_double x =
     (if x = 0 then JNum 0
      else
        (let a = \<bar>x\<bar>;
             e = max (ilog2 a) (- 1022);
             ulp = pow2 (e - 52);
             r = of_int (round_half_even (a / ulp)) * ulp
         in if pow2 1024 \<le> r then (if 0 < x then PosInf else NegInf)
            else JNum (if 0 < x then r else - r)))"

text \<open>\<open>a * b\<close>\<close>

fun js_mul :: "jsnum \<Rightarrow> jsnum \<Rightarrow> jsnum" where
  "js_mul NaN _ = NaN"
| "js_mul _ NaN = NaN"
| "js_mul (JNum a) (JNum b) = to_double (a * b)"
| "js_mul (JNum a) PosInf = (if a = 0 then NaN else if 0 < a then PosInf else NegInf)"
| "js_mul (JNum a) NegInf = (if a = 0 then NaN else if 0 < a then NegInf else PosInf)"
| "js_mul PosInf (JNum b) = (if b = 0 then NaN else if 0 < b then PosInf else NegInf)"
| "js_mul NegInf (JNum b) = (if b = 0 then NaN else if 0 < b then NegInf else PosInf)"
| "js_mul PosInf PosInf = PosInf"
| "js_mul PosInf NegInf = NegInf"
| "js_mul NegInf PosInf = NegInf"
| "js_mul NegInf NegInf = PosInf"

text \<open>\<open>a / b\<close>\<close>

fun js_div :: "jsnum \<Rightarrow> jsnum \<Rightarrow> jsnum" where
  "js_div NaN _ = NaN"
| "js_div _ NaN = NaN"
| "js_div (JNum a) (JNum b) =
     (if b = 0 then (if a = 0 then NaN else if 0 < a then PosInf else NegInf)
      else to_double (a / b))"
| "js_div (JNum a) PosInf = JNum 0"
| "js_div (JNum a) NegInf = JNum 0"
| "js_div PosInf (JNum b) = (if b < 0 then NegInf else PosInf)"
| "js_div NegInf (JNum b) = (if b < 0 then PosInf else NegInf)"
| "js_div PosInf _ = NaN"
| "js_div NegInf _ = NaN"

text \<open>
  \<open>Math.abs\<close>, \<open>Math.round\<close> (the nearest integer, halves going up) and \<open>Math.floor\<close>.
  Their results on a double are doubles, so nothing is rounded here.
\<close>

fun Math_abs :: "jsnum \<Rightarrow> jsnum" where
  "Math_abs (JNum a) = JNum \<bar>a\<bar>"
| "Math_abs NaN = NaN"
| "Math_abs PosInf = PosInf"
| "Math_abs NegInf = PosInf"

fun Math_round :: "jsnum \<Rightarrow> jsnum" where
  "Math_round (JNum a) = JNum (of_int \<lfloor>a + 1 / 2\<rfloor>)"
| "Math_round x = x"

fun Math_floor :: "jsnum \<Rightarrow> jsnum" where
  "Math_floor (JNum a) = JNum (of_int \<lfloor>a\<rfloor>)"
| "Math_floor x = x"

text \<open>Truthiness of a number: \<open>0\<close> and \<open>NaN\<close> are falsy.\<close>

fun truthy :: "jsnum \<Rightarrow> bool" where
  "truthy (JNum a) = (a \<noteq> 0)"
| "truthy NaN = False"
| "truthy PosInf = True"
| "truthy NegInf = True"

text \<open>Truthiness of an optional property: \<open>undefined\<close> is falsy.\<close>

fun truthy_opt :: "jsnum option \<Rightarrow> bool" where
  "truthy_opt None = False"
| "truthy_opt (Some x) = truthy x"

text \<open>The number an optional property stands for in arithmetic: \<open>undefined\<close> is \<open>NaN\<close>.\<close>

fun ToNumber :: "jsnum option \<Rightarrow> jsnum" where
  "ToNumber None = NaN"
| "ToNumber (Some x) = x"

fun isNaN :: "jsnum \<Rightarrow> bool" where
  "isNaN NaN = True"
| "isNaN _ = False"

text \<open>
  \<open>x | 0\<close>, that is ToInt32: truncate towards zero, reduce modulo \<open>2^32\<close> and read the
  result as a signed 32-bit integer; \<open>NaN\<close> and the infinities give \<open>0\<close>.
\<close>

definition wrap32 :: "int \<Rightarrow> int" where
  "wrap32 n = (let k = n mod 4294967296 in if 2147483648 \<le> k then k - 4294967296 else k)"

fun ToInt32 :: "jsnum \<Rightarrow> int" where
  "ToInt32 (JNum a) = wrap32 (if 0 \<le> a then \<lfloor>a\<rfloor> else \<lceil>a\<rceil>)"
| "ToInt32 _ = 0"

section \<open>Size resolution: \<open>GetScreenshotSize\<close>\<close>

text \<open>\<open>IScreenshotSize\<close>: every property is optional.\<close>

record IScreenshotSize =
  precision :: "jsnum option"
  width :: "jsnum option"
  height :: "jsnum option"
  finalWidth :: "jsnum option"
  finalHeight :: "jsnum option"

text \<open>The parameter \<open>size: IScreenshotSize | number\<close>.\<close>

datatype size_arg = SizeNumber jsnum | SizeObject IScreenshotSize

text \<open>The four local variables \<open>height\<close>, \<open>width\<close>, \<open>finalWidth\<close>, \<open>finalHeight\<close>.\<close>

record raw_size =
  rHeight :: jsnum
  rWidth :: jsnum
  rFinalWidth :: jsnum
  rFinalHeight :: jsnum

text \<open>The returned object \<open>{ height, width, finalWidth, finalHeight }\<close>.\<close>

record screenshot_size =
  sHeight :: int
  sWidth :: int
  sFinalWidth :: int
  sFinalHeight :: int

text \<open>
  The first half of \<open>GetScreenshotSize\<close>, up to the truncation. \<open>aspect\<close> is the value
  of \<open>engine.getAspectRatio(camera)\<close> and \<open>renderWidth\<close> that of
  \<open>engine.getRenderWidth()\<close>; both are read, never written.
\<close>

definition ComputeScreenshotSize :: "jsnum \<Rightarrow> jsnum \<Rightarrow> size_arg \<Rightarrow> raw_size" where
  "ComputeScreenshotSize aspect renderWidth sz =
     (case sz of
        SizeObject s \<Rightarrow>
          (let p = (if truthy_opt (precision s) then Math_abs (ToNumber (precision s)) else JNum 1);
               (h, w) =
                 (if truthy_opt (width s) \<and> truthy_opt (height s) then
                    (js_mul (ToNumber (height s)) p, js_mul (ToNumber (width s)) p)
                  else if truthy_opt (width s) \<and> \<not> truthy_opt (height s) then
                    (let w = js_mul (ToNumber (width s)) p in (Math_round (js_div w aspect), w))
                  else if truthy_opt (height s) \<and> \<not> truthy_opt (width s) then
                    (let h = js_mul (ToNumber (height s)) p in (h, Math_round (js_mul h aspect)))
                  else
                    (let w = Math_round (js_mul renderWidth p)
                     in (Math_round (js_div w aspect), w)));
               (fw, fh) =
                 (if truthy_opt (finalWidth s) \<and> truthy_opt (finalHeight s) then
                    (ToNumber (finalWidth s), ToNumber (finalHeight s))
                  else if truthy_opt (finalWidth s) \<and> \<not> truthy_opt (finalHeight s) then
                    (ToNumber (finalWidth s), Math_round (js_div (ToNumber (finalWidth s)) aspect))
                  else if truthy_opt (finalHeight s) \<and> \<not> truthy_opt (finalWidth s) then
                    (Math_round (js_mul (ToNumber (finalHeight s)) aspect), ToNumber (finalHeight s))
                  else (w, h))
           in \<lparr>rHeight = h, rWidth = w, rFinalWidth = fw, rFinalHeight = fh\<rparr>)
      | SizeNumber n \<Rightarrow>
          (if \<not> isNaN n then \<lparr>rHeight = n, rWidth = n, rFinalWidth = n, rFinalHeight = n\<rparr>
           else \<lparr>rHeight = JNum 0, rWidth = JNum 0, rFinalWidth = JNum 0,
                 rFinalHeight = JNum 0\<rparr>))"

text \<open>\<open>if (x) { x = Math.floor(x); }\<close>\<close>

definition floor_if_truthy :: "jsnum \<Rightarrow> jsnum" where
  "floor_if_truthy x = (if truthy x then Math_floor x else x)"

definition GetScreenshotSize :: "jsnum \<Rightarrow> jsnum \<Rightarrow> size_arg \<Rightarrow> screenshot_size" where
  "GetScreenshotSize aspect renderWidth sz =
     (let r = ComputeScreenshotSize aspect renderWidth sz;
          w = floor_if_truthy (rWidth r);
          h = floor_if_truthy (rHeight r);
          fw = floor_if_truthy (rFinalWidth r);
          fh = floor_if_truthy (rFinalHeight r)
      in \<lparr>sHeight = ToInt32 h, sWidth = ToInt32 w, sFinalWidth = ToInt32 fw,
          sFinalHeight = ToInt32 fh\<rparr>)"

section \<open>The glTF loader extension registry\<close>

text \<open>
  \<open>RegisteredGLTFExtensions\<close> is a JavaScript \<open>Map\<close>: its entries are kept in insertion
  order and its keys are distinct. It is modelled as an association list; the factory is
  an opaque value of type \<open>'f\<close>. \<open>Logger.Warn\<close> appends to a list of warnings.
\<close>

record 'f IRegisteredGLTFExtension =
  isGLTFExtension :: bool
  factory :: 'f

record 'f registry =
  RegisteredGLTFExtensions :: "(string \<times> 'f IRegisteredGLTFExtension) list"
  warnings :: "string list"

definition Map_has :: "'k \<Rightarrow> ('k \<times> 'v) list \<Rightarrow> bool" where
  "Map_has k m = (k \<in> fst ` set m)"

definition Map_get :: "'k \<Rightarrow> ('k \<times> 'v) list \<Rightarrow> 'v option" where
  "Map_get k m = map_of m k"

text \<open>\<open>Map.prototype.delete\<close>: whether the key was present, and the map without it.\<close>

definition Map_delete :: "'k \<Rightarrow> ('k \<times> 'v) list \<Rightarrow> bool \<times> ('k \<times> 'v) list" where
  "Map_delete k m = (Map_has k m, filter (\<lambda>e. fst e \<noteq> k) m)"

text \<open>\<open>Map.prototype.set\<close>: a present key keeps its place, a new key goes last.\<close>

definition Map_set :: "'k \<Rightarrow> 'v \<Rightarrow> ('k \<times> 'v) list \<Rightarrow> ('k \<times> 'v) list" where
  "Map_set k v m =
     (if Map_has k m then map (\<lambda>e. if fst e = k then (k, v) else e) m else m @ [(k, v)])"

definition unregisterGLTFExtension :: "string \<Rightarrow> 'f registry \<Rightarrow> bool \<times> 'f registry" where
  "unregisterGLTFExtension name r =
     (let (deleted, m) = Map_delete name (RegisteredGLTFExtensions r)
      in (deleted, r\<lparr>RegisteredGLTFExtensions := m\<rparr>))"

definition already_exists :: "string \<Rightarrow> string" where
  "already_exists name =
     ''Extension with the name '' @ [CHR 0x27] @ name @ [CHR 0x27] @ '' already exists''"

definition registerGLTFExtension :: "string \<Rightarrow> bool \<Rightarrow> 'f \<Rightarrow> 'f registry \<Rightarrow> 'f registry" where
  "registerGLTFExtension name isGLTF fac r =
     (let (existed, r1) = unregisterGLTFExtension name r;
          r2 = (if existed then r1\<lparr>warnings := warnings r1 @ [already_exists name]\<rparr> else r1)
      in r2\<lparr>RegisteredGLTFExtensions :=
            Map_set name \<lparr>isGLTFExtension = isGLTF, factory = fac\<rparr>
              (RegisteredGLTFExtensions r2)\<rparr>)"

section \<open>The render-target screenshot pipeline\<close>

subsection \<open>Engine, scene and camera\<close>

text \<open>
  Only the fields that \<open>CreateScreenshotUsingRenderTarget\<close> reads or writes are kept.
  \<open>engine.getRenderWidth\<close> and \<open>engine.getRenderHeight\<close> are function-valued
  properties; a call passes them the engine's \<open>_currentRenderTarget\<close> at the time of the
  call and the \<open>useScreen\<close> argument. Cameras and meshes are named by numbers.
\<close>

record RenderTargetWrapper =
  rt_width :: jsnum
  rt_height :: jsnum

type_synonym accessor = "RenderTargetWrapper option \<Rightarrow> bool \<Rightarrow> jsnum"

record Engine =
  skipFrameRender :: bool
  getRenderWidth :: accessor
  getRenderHeight :: accessor
  currentRenderTarget :: "RenderTargetWrapper option"
  hasResizeObservers :: bool
  isWebGPU :: bool

text \<open>
  A value of \<open>camera.outputRenderTarget\<close>: the texture allocated by the capture, or some
  other texture.
\<close>

datatype texture_ref = ScreenShot | OtherTexture nat

record Scene =
  activeCamera :: "nat option"
  activeCameras :: "nat list option"
  spritesEnabled :: bool
  meshes :: "nat list"
  renderId :: nat
  cachedMaterial :: "nat option"

record Camera =
  cameraId :: nat
  outputRenderTarget :: "texture_ref option"

record World =
  engine :: Engine
  scene :: Scene
  camera :: Camera

definition incrementRenderId :: "Scene \<Rightarrow> Scene" where
  "incrementRenderId s = s\<lparr>renderId := renderId s + 1\<rparr>"

definition resetCachedMaterial :: "Scene \<Rightarrow> Scene" where
  "resetCachedMaterial s = s\<lparr>cachedMaterial := None\<rparr>"

subsection \<open>The request, the texture and the calls made to collaborators\<close>

record RenderTargetTexture =
  rtt_width :: int
  rtt_height :: int
  renderList :: "nat list option"
  rtt_samples :: nat
  rtt_renderSprites :: bool
  rtt_activeCamera :: nat
  forceLayerMaskCheck :: bool
  rtt_stencil :: bool
  postProcesses :: "string list"

text \<open>The parameters of \<open>CreateScreenshotUsingRenderTarget\<close> after engine and camera.\<close>

record request =
  sz :: size_arg
  mimeType :: string
  samples :: nat
  antialiasing :: bool
  fileName :: "string option"
  renderSprites :: bool
  enableStencilBuffer :: bool
  useLayerMask :: bool
  quality :: "jsnum option"
  customizeTexture :: "(RenderTargetTexture \<Rightarrow> RenderTargetTexture) option"

type_synonym pixels = "nat list"

text \<open>
  The calls to collaborators whose code is outside the pipeline, in the order they are
  made. \<open>DumpData\<close> stands for \<open>dumpDataFunc\<close> (the custom function or the default one);
  it receives the success callback, so the data reaches the caller only through it.
\<close>

datatype call =
    LoggerError string
  | NotifyResizeObservers
  | NewRenderTargetTexture int int
  | CustomizeTexture
  | NewFxaaPostProcess
  | SceneRender
  | GetProjectionMatrix
  | ReadPixels
  | ImportPassFragment bool
  | ApplyPostProcess int int
  | ReadTexturePixels int int
  | DumpData int int pixels string "string option" "jsnum option"
  | DisposeRenderTargetTexture
  | DisposeInternalTexture

text \<open>
  The collaborators that compute: \<open>engine.getAspectRatio(camera)\<close>; \<open>scene.render()\<close>,
  which may change anything in the world and may throw (the flag); and \<open>dumpDataFunc\<close>,
  the caller's \<open>customDumpData\<close> or the default \<open>DumpData\<close>, of which the pipeline sees
  only whether it throws on the width, height and data it is given.
\<close>

record env =
  getAspectRatio :: "World \<Rightarrow> jsnum"
  render :: "World \<Rightarrow> World \<times> bool"
  dumpDataThrows :: "int \<Rightarrow> int \<Rightarrow> pixels \<Rightarrow> bool"

subsection \<open>The state of one capture\<close>

text \<open>
  The constants that the closures of one call share: the resolved size, the two saved
  accessors, the texture as it is after the synchronous part, and the request.
\<close>

record closure =
  cl_size :: screenshot_size
  originalGetRenderWidth :: accessor
  originalGetRenderHeight :: accessor
  texture :: RenderTargetTexture
  cl_req :: request

text \<open>
  What is registered and outstanding, beside the world: the \<open>addOnce\<close> observer on
  \<open>onEffectCreatedObservable\<close>, the \<open>onCompiled\<close> property of the effect (assigned by that
  observer and never cleared), the running retry loops, the \<open>addOnce\<close> observers on
  \<open>onEndFrameObservable\<close>, and the pending promises. \<open>renderToTextureCalls\<close> counts the
  executions of \<open>renderToTexture\<close>, \<open>errorCallbacks\<close> those of the error callback of the
  retry loop, \<open>thrown\<close> the exceptions that left the render pass, \<open>dumpThrown\<close> those that
  \<open>dumpDataFunc\<close> threw, \<open>unhandledRejections\<close> the rejections of the awaited promises
  (no rejection handler is attached anywhere).
\<close>

record capture =
  world :: World
  fxaaObserver :: bool
  onCompiled :: bool
  retries :: nat
  endFrameObservers :: nat
  pendingReadPixels :: nat
  pendingImport :: nat
  pendingApplyPostProcess :: nat
  pendingReadTexturePixels :: nat
  renderToTextureCalls :: nat
  errorCallbacks :: nat
  thrown :: nat
  dumpThrown :: nat
  unhandledRejections :: nat
  calls :: "call list"

definition idle :: "World \<Rightarrow> capture" where
  "idle w =
     \<lparr>world = w, fxaaObserver = False, onCompiled = False,
      retries = 0, endFrameObservers = 0, pendingReadPixels = 0, pendingImport = 0,
      pendingApplyPostProcess = 0, pendingReadTexturePixels = 0, renderToTextureCalls = 0,
      errorCallbacks = 0, thrown = 0, dumpThrown = 0, unhandledRejections = 0, calls = []\<rparr>"

text \<open>
  What the environment does to a capture in progress: the observable of the post-process
  notifies that the effect is created (with the value of \<open>isReady()\<close>); the effect
  finishes a compilation and calls its \<open>onCompiled\<close>; a retry loop polls its condition
  (with the value found) or reports an error; the frame ends; a promise is fulfilled or
  rejected. Nothing in the sources bounds how often or when any of these happens: the
  observable may notify from within \<open>addOnce\<close> itself, which is the event
  \<open>EffectCreated\<close> coming first, and an effect may compile more than once.
\<close>

datatype event =
    EffectCreated bool
  | EffectCompiled
  | RetryTick bool
  | RetryError
  | EndFrame
  | ReadPixelsSettled "pixels option"
  | ImportSettled bool
  | ApplyPostProcessSettled bool
  | ReadTexturePixelsSettled "pixels option"

subsection \<open>The closures of \<open>CreateScreenshotUsingRenderTarget\<close>\<close>

text \<open>The two functions assigned to \<open>engine.getRenderWidth\<close> and \<open>engine.getRenderHeight\<close>.\<close>

definition captureRenderWidth :: "int \<Rightarrow> accessor" where
  "captureRenderWidth w =
     (\<lambda>rt useScreen. case rt of
        Some t \<Rightarrow> if \<not> useScreen then rt_width t else JNum (of_int w)
      | None \<Rightarrow> JNum (of_int w))"

definition captureRenderHeight :: "int \<Rightarrow> accessor" where
  "captureRenderHeight h =
     (\<lambda>rt useScreen. case rt of
        Some t \<Rightarrow> if \<not> useScreen then rt_height t else JNum (of_int h)
      | None \<Rightarrow> JNum (of_int h))"

text \<open>
  Modelled from the spec: \<open>_RetryWithInterval\<close> (\<open>Misc/timingTools\<close>, not among the
  sources) polls its condition at a fixed interval; when the condition holds the loop
  stops and calls its success callback, and when the helper reports an error the loop
  stops and calls its error callback. Starting it adds one running loop; the events
  \<open>RetryTick\<close> and \<open>RetryError\<close> below are its two outcomes. What the helper does
  with an exception that leaves the success callback is not modelled: the exception is
  counted in \<open>thrown\<close>, and the error callback, were it called then, would write what
  the \<open>finally\<close> block has already written.
\<close>

definition renderWhenReady :: "capture \<Rightarrow> capture" where
  "renderWhenReady st = st\<lparr>retries := retries st + 1\<rparr>"

definition renderToTexture :: "capture \<Rightarrow> capture" where
  "renderToTexture st =
     renderWhenReady
       (st\<lparr>world := (world st)\<lparr>scene := resetCachedMaterial (incrementRenderId (scene (world st)))\<rparr>,
           renderToTextureCalls := renderToTextureCalls st + 1\<rparr>)"

text \<open>
  The success callback of the retry loop, up to the call of \<open>scene.render()\<close>: the world
  that the render pass receives.
\<close>

definition swapScene :: "closure \<Rightarrow> World \<Rightarrow> World" where
  "swapScene cl w =
     (let s = resetCachedMaterial (incrementRenderId (scene w))
      in w\<lparr>scene := s\<lparr>activeCamera := Some (cameraId (camera w)),
                       activeCameras := None,
                       spritesEnabled := renderSprites (cl_req cl),
                       meshes := (case renderList (texture cl) of Some l \<Rightarrow> l | None \<Rightarrow> meshes s)\<rparr>,
           camera := (camera w)\<lparr>outputRenderTarget := Some ScreenShot\<rparr>\<rparr>)"

text \<open>
  The \<open>finally\<close> block up to the notification of the resize observers: \<open>w\<close> is the world
  in which the originals were recorded, \<open>w'\<close> the world that the render pass left.
\<close>

definition restoreScene :: "closure \<Rightarrow> World \<Rightarrow> World \<Rightarrow> World" where
  "restoreScene cl w w' =
     w'\<lparr>scene := (scene w')\<lparr>activeCamera := activeCamera (scene w),
                            activeCameras := activeCameras (scene w),
                            spritesEnabled := spritesEnabled (scene w),
                            meshes := meshes (scene w)\<rparr>,
        camera := (camera w')\<lparr>outputRenderTarget := outputRenderTarget (camera w)\<rparr>,
        engine := (engine w')\<lparr>getRenderWidth := originalGetRenderWidth cl,
                              getRenderHeight := originalGetRenderHeight cl\<rparr>\<rparr>"

definition onSuccess :: "env \<Rightarrow> closure \<Rightarrow> capture \<Rightarrow> capture" where
  "onSuccess env cl st =
     (let st1 = st\<lparr>endFrameObservers := endFrameObservers st + 1\<rparr>;
          w = world st1;
          (w', threw) = render env (swapScene cl w);
          w'' = restoreScene cl w w';
          notes = (if hasResizeObservers (engine w'') then [NotifyResizeObservers] else [])
      in st1\<lparr>world := w''\<lparr>engine := (engine w'')\<lparr>skipFrameRender := False\<rparr>\<rparr>,
             calls := calls st1 @ [SceneRender] @ notes @ [GetProjectionMatrix],
             thrown := thrown st1 + (if threw then 1 else 0)\<rparr>)"

text \<open>The error callback of the retry loop.\<close>

definition onError :: "closure \<Rightarrow> capture \<Rightarrow> capture" where
  "onError cl st =
     st\<lparr>world := (world st)\<lparr>engine := (engine (world st))
            \<lparr>skipFrameRender := False,
             getRenderWidth := originalGetRenderWidth cl,
             getRenderHeight := originalGetRenderHeight cl\<rparr>\<rparr>,
        errorCallbacks := errorCallbacks st + 1\<rparr>"

text \<open>The observer added once to \<open>engine.onEndFrameObservable\<close>.\<close>

definition onEndFrame :: "closure \<Rightarrow> capture \<Rightarrow> capture" where
  "onEndFrame cl st =
     (if sFinalWidth (cl_size cl) = sWidth (cl_size cl) \<and>
         sFinalHeight (cl_size cl) = sHeight (cl_size cl)
      then st\<lparr>pendingReadPixels := pendingReadPixels st + 1, calls := calls st @ [ReadPixels]\<rparr>
      else st\<lparr>pendingImport := pendingImport st + 1,
              calls := calls st @ [ImportPassFragment (isWebGPU (engine (world st)))]\<rparr>)"

text \<open>
  The continuations of the four promises. A rejection finds no handler. When
  \<open>dumpDataFunc\<close> throws, the statement after it, \<open>texture.dispose()\<close>, is not reached.
\<close>

definition onReadPixels :: "env \<Rightarrow> closure \<Rightarrow> pixels option \<Rightarrow> capture \<Rightarrow> capture" where
  "onReadPixels env cl r st =
     (case r of
        Some d \<Rightarrow>
          (let st1 = st\<lparr>calls := calls st @
                       [DumpData (sWidth (cl_size cl)) (sHeight (cl_size cl)) d
                          (mimeType (cl_req cl)) (fileName (cl_req cl)) (quality (cl_req cl))]\<rparr>
           in if dumpDataThrows env (sWidth (cl_size cl)) (sHeight (cl_size cl)) d
              then st1\<lparr>dumpThrown := dumpThrown st1 + 1\<rparr>
              else st1\<lparr>calls := calls st1 @ [DisposeRenderTargetTexture]\<rparr>)
      | None \<Rightarrow> st\<lparr>unhandledRejections := unhandledRejections st + 1\<rparr>)"

definition onImport :: "closure \<Rightarrow> bool \<Rightarrow> capture \<Rightarrow> capture" where
  "onImport cl ok st =
     (if ok then
        st\<lparr>pendingApplyPostProcess := pendingApplyPostProcess st + 1,
           calls := calls st @
             [ApplyPostProcess (sFinalWidth (cl_size cl)) (sFinalHeight (cl_size cl))]\<rparr>
      else st\<lparr>unhandledRejections := unhandledRejections st + 1\<rparr>)"

definition onApplyPostProcess :: "closure \<Rightarrow> bool \<Rightarrow> capture \<Rightarrow> capture" where
  "onApplyPostProcess cl ok st =
     (if ok then
        st\<lparr>pendingReadTexturePixels := pendingReadTexturePixels st + 1,
           calls := calls st @
             [ReadTexturePixels (sFinalWidth (cl_size cl)) (sFinalHeight (cl_size cl))]\<rparr>
      else st\<lparr>unhandledRejections := unhandledRejections st + 1\<rparr>)"

text \<open>
  Here \<open>texture\<close> is the parameter of the inner arrow function, the internal texture that
  \<open>ApplyPostProcess\<close> resolved with: it is the one disposed.
\<close>

definition onReadTexturePixels ::
    "env \<Rightarrow> closure \<Rightarrow> pixels option \<Rightarrow> capture \<Rightarrow> capture" where
  "onReadTexturePixels env cl r st =
     (case r of
        Some d \<Rightarrow>
          (let st1 = st\<lparr>calls := calls st @
                       [DumpData (sFinalWidth (cl_size cl)) (sFinalHeight (cl_size cl)) d
                          (mimeType (cl_req cl)) (fileName (cl_req cl)) (quality (cl_req cl))]\<rparr>
           in if dumpDataThrows env (sFinalWidth (cl_size cl)) (sFinalHeight (cl_size cl)) d
              then st1\<lparr>dumpThrown := dumpThrown st1 + 1\<rparr>
              else st1\<lparr>calls := calls st1 @ [DisposeInternalTexture]\<rparr>)
      | None \<Rightarrow> st\<lparr>unhandledRejections := unhandledRejections st + 1\<rparr>)"

text \<open>The observer added once to \<open>fxaaPostProcess.onEffectCreatedObservable\<close>.\<close>

definition onEffectCreated :: "bool \<Rightarrow> capture \<Rightarrow> capture" where
  "onEffectCreated isReady st =
     (if \<not> isReady then st\<lparr>onCompiled := True\<rparr> else renderToTexture st)"

subsection \<open>One event, and a run of events\<close>

text \<open>
  An observable notifies every observer it holds and drops those added once; an effect
  that has compiled calls its \<open>onCompiled\<close>, each time; a timer and a promise concern
  one loop and one continuation at a time.
\<close>

fun step :: "env \<Rightarrow> closure \<Rightarrow> event \<Rightarrow> capture \<Rightarrow> capture" where
  "step env cl (EffectCreated isReady) st =
     (if fxaaObserver st then onEffectCreated isReady (st\<lparr>fxaaObserver := False\<rparr>) else st)"
| "step env cl EffectCompiled st = (if onCompiled st then renderToTexture st else st)"
| "step env cl (RetryTick ready) st =
     (if 0 < retries st \<and> ready then onSuccess env cl (st\<lparr>retries := retries st - 1\<rparr>)
      else st)"
| "step env cl RetryError st =
     (if 0 < retries st then onError cl (st\<lparr>retries := retries st - 1\<rparr>) else st)"
| "step env cl EndFrame st =
     (onEndFrame cl ^^ endFrameObservers st) (st\<lparr>endFrameObservers := 0\<rparr>)"
| "step env cl (ReadPixelsSettled r) st =
     (if 0 < pendingReadPixels st then
        onReadPixels env cl r (st\<lparr>pendingReadPixels := pendingReadPixels st - 1\<rparr>)
      else st)"
| "step env cl (ImportSettled ok) st =
     (if 0 < pendingImport st then
        onImport cl ok (st\<lparr>pendingImport := pendingImport st - 1\<rparr>)
      else st)"
| "step env cl (ApplyPostProcessSettled ok) st =
     (if 0 < pendingApplyPostProcess st then
        onApplyPostProcess cl ok (st\<lparr>pendingApplyPostProcess := pendingApplyPostProcess st - 1\<rparr>)
      else st)"
| "step env cl (ReadTexturePixelsSettled r) st =
     (if 0 < pendingReadTexturePixels st then
        onReadTexturePixels env cl r
          (st\<lparr>pendingReadTexturePixels := pendingReadTexturePixels st - 1\<rparr>)
      else st)"

fun run :: "env \<Rightarrow> closure \<Rightarrow> event list \<Rightarrow> capture \<Rightarrow> capture" where
  "run env cl [] st = st"
| "run env cl (e # es) st = run env cl es (step env cl e st)"

subsection \<open>The synchronous part of \<open>CreateScreenshotUsingRenderTarget\<close>\<close>

definition invalid_size :: string where
  "invalid_size = ''Invalid '' @ [CHR 0x27] @ ''size'' @ [CHR 0x27] @ '' parameter !''"

text \<open>
  The call from \<open>engine.skipFrameRender = true\<close> to its last statement, for a size that
  was accepted: the closures it leaves behind and the state once \<open>renderToTexture\<close> has
  started the retry loop or, with antialiasing, once the observer is registered and not
  yet notified.
\<close>

definition beginCapture :: "screenshot_size \<Rightarrow> request \<Rightarrow> World \<Rightarrow> closure \<times> capture" where
  "beginCapture dims req w =
     (let e1 = (engine w)\<lparr>skipFrameRender := True\<rparr>;
          e2 = e1\<lparr>getRenderWidth := captureRenderWidth (sWidth dims),
                  getRenderHeight := captureRenderHeight (sHeight dims)\<rparr>;
          notes = (if hasResizeObservers e2 then [NotifyResizeObservers] else []);
          t = \<lparr>rtt_width = sWidth dims, rtt_height = sHeight dims,
               renderList = Some (meshes (scene w)), rtt_samples = samples req,
               rtt_renderSprites = renderSprites req,
               rtt_activeCamera = cameraId (camera w),
               forceLayerMaskCheck = useLayerMask req,
               rtt_stencil = enableStencilBuffer req, postProcesses = []\<rparr>;
          (t', custom) =
            (case customizeTexture req of
               None \<Rightarrow> (t, [])
             | Some f \<Rightarrow> (f t, [CustomizeTexture]));
          st = (idle (w\<lparr>engine := e2\<rparr>))
                 \<lparr>calls := notes @
                    [NewRenderTargetTexture (sWidth dims) (sHeight dims)] @ custom\<rparr>;
          cl = \<lparr>cl_size = dims, originalGetRenderWidth = getRenderWidth e1,
                originalGetRenderHeight = getRenderHeight e1, texture = t',
                cl_req = req\<rparr>
      in if antialiasing req then
           (cl\<lparr>texture := t'\<lparr>postProcesses := postProcesses t' @ [''antialiasing'']\<rparr>\<rparr>,
            st\<lparr>fxaaObserver := True, calls := calls st @ [NewFxaaPostProcess]\<rparr>)
         else (cl, renderToTexture st))"

text \<open>
  \<open>GetScreenshotSize(engine, camera, size)\<close> as the call evaluates it: on the aspect ratio
  and the render width that the engine reports before anything is overridden.
\<close>

definition resolvedSize :: "env \<Rightarrow> request \<Rightarrow> World \<Rightarrow> screenshot_size" where
  "resolvedSize env req w =
     GetScreenshotSize (getAspectRatio env w)
       (getRenderWidth (engine w) (currentRenderTarget (engine w)) False) (sz req)"

text \<open>
  The whole call. The result is the state that it has reached, and the closures it has
  left behind (none when the size is refused).
\<close>

definition CreateScreenshotUsingRenderTarget ::
    "env \<Rightarrow> request \<Rightarrow> World \<Rightarrow> closure option \<times> capture" where
  "CreateScreenshotUsingRenderTarget env req w =
     (let dims = resolvedSize env req w
      in if \<not> (sHeight dims \<noteq> 0 \<and> sWidth dims \<noteq> 0) then
           (None, (idle w)\<lparr>calls := [LoggerError invalid_size]\<rparr>)
         else (let (cl, st) = beginCapture dims req w in (Some cl, st)))"

text \<open>The state that the call has reached, followed by the events given.\<close>

definition capture_after :: "env \<Rightarrow> request \<Rightarrow> World \<Rightarrow> event list \<Rightarrow> capture" where
  "capture_after env req w es =
     (case CreateScreenshotUsingRenderTarget env req w of
        (Some cl, st) \<Rightarrow> run env cl es st
      | (None, st) \<Rightarrow> st)"

subsection \<open>What holds of every state of a capture\<close>

fun isDumpData :: "call \<Rightarrow> bool" where
  "isDumpData (DumpData w h d m f q) = True"
| "isDumpData _ = False"

fun isNewRenderTargetTexture :: "call \<Rightarrow> bool" where
  "isNewRenderTargetTexture (NewRenderTargetTexture w h) = True"
| "isNewRenderTargetTexture _ = False"

text \<open>The original scene setup that the render pass records and restores.\<close>

definition sceneSetup ::
    "World \<Rightarrow> nat option \<times> nat list option \<times> texture_ref option \<times> bool \<times> nat list" where
  "sceneSetup w =
     (activeCamera (scene w), activeCameras (scene w), outputRenderTarget (camera w),
      spritesEnabled (scene w), meshes (scene w))"

text \<open>The observers and promises that a render pass has left outstanding.\<close>

definition outstanding :: "capture \<Rightarrow> nat" where
  "outstanding st =
     endFrameObservers st + pendingReadPixels st + pendingImport st +
     pendingApplyPostProcess st + pendingReadTexturePixels st"

text \<open>
  The invariant of a capture that started in world \<open>w\<close>: while the effect is awaited
  \<open>renderToTexture\<close> has not run; each of its runs starts one retry loop, and each loop
  still runs or has ended in one render pass or one error callback; each render pass
  leaves one observer or promise outstanding until the data is dumped or a promise is
  rejected; each dump disposes one texture unless it throws; one texture is allocated;
  the scene setup is that of \<open>w\<close>; the accessors are the capture's until the first render
  pass or error callback, and the original ones from then on.
\<close>

definition inv :: "closure \<Rightarrow> World \<Rightarrow> capture \<Rightarrow> bool" where
  "inv cl w st \<longleftrightarrow>
     (fxaaObserver st \<longrightarrow> \<not> onCompiled st \<and> renderToTextureCalls st = 0) \<and>
     retries st + count_list (calls st) SceneRender + errorCallbacks st
       = renderToTextureCalls st \<and>
     outstanding st + length (filter isDumpData (calls st)) + unhandledRejections st
       = count_list (calls st) SceneRender \<and>
     count_list (calls st) DisposeRenderTargetTexture +
       count_list (calls st) DisposeInternalTexture + dumpThrown st
       = length (filter isDumpData (calls st)) \<and>
     length (filter isNewRenderTargetTexture (calls st)) = 1 \<and>
     sceneSetup (world st) = sceneSetup w \<and>
     originalGetRenderWidth cl = getRenderWidth (engine w) \<and>
     originalGetRenderHeight cl = getRenderHeight (engine w) \<and>
     (SceneRender \<notin> set (calls st) \<and> errorCallbacks st = 0 \<longrightarrow>
        getRenderWidth (engine (world st)) = captureRenderWidth (sWidth (cl_size cl)) \<and>
        getRenderHeight (engine (world st)) = captureRenderHeight (sHeight (cl_size cl)) \<and>
        skipFrameRender (engine (world st))) \<and>
     (SceneRender \<in> set (calls st) \<or> 0 < errorCallbacks st \<longrightarrow>
        getRenderWidth (engine (world st)) = getRenderWidth (engine w) \<and>
        getRenderHeight (engine (world st)) = getRenderHeight (engine w) \<and>
        \<not> skipFrameRender (engine (world st)))"

subsection \<open>A concrete engine, scene, camera and request\<close>

text \<open>
  Inputs on which the statements below are evaluated: a canvas of 800 by 400 with no
  render target bound, a scene with an active camera other than the captured one, and a
  request with the default value of every optional parameter. \<open>demoEnv\<close> renders without
  touching the world; the render pass of \<open>throwingEnv\<close> disturbs the scene, the camera and
  the engine and then throws; in \<open>throwingDumpEnv\<close> it is \<open>dumpDataFunc\<close> that throws.
\<close>

definition demoEngine :: Engine where
  "demoEngine =
     \<lparr>skipFrameRender = False, getRenderWidth = (\<lambda>rt useScreen. JNum 800),
      getRenderHeight = (\<lambda>rt useScreen. JNum 400), currentRenderTarget = None,
      hasResizeObservers = False, isWebGPU = False\<rparr>"

definition demoWorld :: World where
  "demoWorld =
     \<lparr>engine = demoEngine,
      scene = \<lparr>activeCamera = Some 1, activeCameras = None, spritesEnabled = True,
               meshes = [10, 11], renderId = 0, cachedMaterial = Some 5\<rparr>,
      camera = \<lparr>cameraId = 2, outputRenderTarget = None\<rparr>\<rparr>"

definition demoEnv :: env where
  "demoEnv =
     \<lparr>getAspectRatio = (\<lambda>w. JNum 2), render = (\<lambda>w. (w, False)),
      dumpDataThrows = (\<lambda>w h d. False)\<rparr>"

definition throwingEnv :: env where
  "throwingEnv =
     \<lparr>getAspectRatio = (\<lambda>w. JNum 2),
      render = (\<lambda>w. (w\<lparr>scene := (scene w)\<lparr>activeCamera := None, meshes := []\<rparr>,
                        camera := (camera w)\<lparr>outputRenderTarget := Some (OtherTexture 3)\<rparr>,
                        engine := (engine w)\<lparr>skipFrameRender := True\<rparr>\<rparr>, True)),
      dumpDataThrows = (\<lambda>w h d. False)\<rparr>"

definition throwingDumpEnv :: env where
  "throwingDumpEnv = demoEnv\<lparr>dumpDataThrows := (\<lambda>w h d. True)\<rparr>"

definition demoRequest :: "size_arg \<Rightarrow> request" where
  "demoRequest s =
     \<lparr>sz = s, mimeType = ''image/png'', samples = 1, antialiasing = False, fileName = None,
      renderSprites = False, enableStencilBuffer = False, useLayerMask = True,
      quality = None, customizeTexture = None\<rparr>"

text \<open>
  The same world with frame rendering already skipped; the size objects \<open>{width: 0}\<close>,
  \<open>{width: 100, height: 50, finalWidth: 400, finalHeight: 200}\<close> and
  \<open>{precision: -1e10, width: 3}\<close>; a request with antialiasing.
\<close>

definition skippingWorld :: World where
  "skippingWorld = demoWorld\<lparr>engine := demoEngine\<lparr>skipFrameRender := True\<rparr>\<rparr>"

definition widthZero :: size_arg where
  "widthZero = SizeObject \<lparr>precision = None, width = Some (JNum 0), height = None,
                 finalWidth = None, finalHeight = None\<rparr>"

definition resized :: size_arg where
  "resized = SizeObject \<lparr>precision = None, width = Some (JNum 100), height = Some (JNum 50),
                   finalWidth = Some (JNum 400), finalHeight = Some (JNum 200)\<rparr>"

definition hugePrecision :: size_arg where
  "hugePrecision = SizeObject \<lparr>precision = Some (JNum (- 10000000000)), width = Some (JNum 3),
                      height = None, finalWidth = None, finalHeight = None\<rparr>"

definition antialiased :: request where
  "antialiased = (demoRequest (SizeNumber (JNum 256)))\<lparr>antialiasing := True\<rparr>"


section \<open>Auxiliary facts\<close>

subsection \<open>Powers of two and the binary exponent\<close>

lemma pow2_powi: "pow2 k = 2 powi k"
  by (simp add: pow2_def power_int_def power_one_over inverse_eq_divide)

lemma pow2_pos: "0 < pow2 k"
  by (simp add: pow2_def)

lemma pow2_add: "pow2 (i + j) = pow2 i * pow2 j"
  by (simp add: pow2_powi power_int_add)

lemma pow2_nat: "pow2 (int n) = 2 ^ n"
  by (simp add: pow2_def)

lemma pow2_mono: "i \<le> j \<Longrightarrow> pow2 i \<le> pow2 j"
  by (simp add: pow2_powi power_int_increasing)

lemma pow2_strict_mono: "i < j \<Longrightarrow> pow2 i < pow2 j"
  by (simp add: pow2_powi power_int_strict_increasing)

lemma pow2_less_cancel: "pow2 i < pow2 j \<Longrightarrow> i < j"
  using pow2_mono [of j i] by (cases "i < j") auto

lemma bitlen_pow2:
  assumes "0 < (p::int)"
  shows "pow2 (bitlen p - 1) \<le> of_int p \<and> of_int p < pow2 (bitlen p)"
proof -
  from bitlen_bounds [OF assms] have b: "2 ^ nat (bitlen p - 1) \<le> p" "p < 2 ^ nat (bitlen p)"
    by simp_all
  have ge: "1 \<le> bitlen p" using assms by (simp add: bitlen_alt_def)
  have "(of_int (2 ^ nat (bitlen p - 1)) :: rat) \<le> of_int p" using b(1) by (simp only: of_int_le_iff)
  moreover have "(of_int p :: rat) < of_int (2 ^ nat (bitlen p))" using b(2) by (simp only: of_int_less_iff)
  ultimately show ?thesis using ge by (simp add: pow2_def)
qed

lemma ilog2_bounds:
  assumes "0 < a"
  shows "pow2 (ilog2 a) \<le> a \<and> a < pow2 (ilog2 a + 1)"
proof -
  obtain p q where pq: "quotient_of a = (p, q)" by (cases "quotient_of a")
  then have q: "0 < q" and a: "a = of_int p / of_int q"
    by (simp_all add: quotient_of_denom_pos quotient_of_div)
  with assms have p: "0 < p" by (simp add: zero_less_divide_iff)
  let ?k = "bitlen p - bitlen q"
  note bp = bitlen_pow2 [OF p] and bq = bitlen_pow2 [OF q]
  have qpos: "(0::rat) < of_int q" using q by simp
  have up: "a < pow2 (?k + 1)"
  proof -
    have "of_int p < pow2 (?k + 1) * pow2 (bitlen q - 1)"
      using bp by (simp add: pow2_add [symmetric])
    also have "\<dots> \<le> pow2 (?k + 1) * of_int q"
      using bq pow2_pos [of "?k + 1"] by simp
    finally show ?thesis using qpos by (simp add: a pos_divide_less_eq)
  qed
  have lo: "pow2 (?k - 1) \<le> a"
  proof -
    have "pow2 (?k - 1) * of_int q \<le> pow2 (?k - 1) * pow2 (bitlen q)"
      using bq pow2_pos [of "?k - 1"] by simp
    also have "\<dots> = pow2 (bitlen p - 1)" by (simp add: pow2_add [symmetric])
    also have "\<dots> \<le> of_int p" using bp by simp
    finally show ?thesis using qpos by (simp add: a pos_le_divide_eq)
  qed
  show ?thesis
  proof (cases "pow2 ?k \<le> a")
    case True
    with up show ?thesis by (simp add: ilog2_def pq)
  next
    case False
    with lo show ?thesis by (simp add: ilog2_def pq)
  qed
qed

lemma ilog2_unique:
  assumes "0 < a" "pow2 k \<le> a" "a < pow2 (k + 1)"
  shows "ilog2 a = k"
proof -
  from ilog2_bounds [OF assms(1)] assms(2,3)
  have "pow2 (ilog2 a) < pow2 (k + 1)" "pow2 k < pow2 (ilog2 a + 1)" by auto
  then have "ilog2 a < k + 1" "k < ilog2 a + 1" by (auto dest: pow2_less_cancel)
  then show ?thesis by simp
qed

lemma pow2_diff: "pow2 (i - j) = pow2 i / pow2 j"
  using pow2_add [of "i - j" j] pow2_pos [of j] by (simp add: field_simps)

subsection \<open>Numbers that a double holds exactly\<close>

text \<open>
  An integer below \<open>2^53\<close> in absolute value, scaled by a power of two within the range of
  the exponent, is a double: rounding returns it.
\<close>

lemma round_half_even_of_int: "round_half_even (of_int z) = z"
  by (simp add: round_half_even_def)

lemma to_double_exact:
  assumes "n \<noteq> 0" "\<bar>n\<bar> < 2 ^ 53" "- 1074 \<le> j" "j \<le> 971"
  shows "to_double (of_int n * pow2 j) = JNum (of_int n * pow2 j)"
proof -
  let ?x = "of_int n * pow2 j :: rat"
  let ?a = "of_int \<bar>n\<bar> * pow2 j :: rat"
  define b where "b = bitlen \<bar>n\<bar>"
  have npos: "0 < \<bar>n\<bar>" using assms(1) by simp
  have ax: "\<bar>?x\<bar> = ?a" using pow2_pos [of j] by (simp add: abs_mult)
  have x0: "?x \<noteq> 0" using assms(1) pow2_pos [of j] by simp
  have apos: "0 < ?a" using npos pow2_pos [of j] by simp
  from bitlen_pow2 [OF npos]
  have bl: "pow2 (b - 1) \<le> of_int \<bar>n\<bar>" "(of_int \<bar>n\<bar> :: rat) < pow2 b"
    by (simp_all add: b_def)
  have "(of_int \<bar>n\<bar> :: rat) < of_int (2 ^ 53)" using assms(2) by (simp only: of_int_less_iff)
  then have "(of_int \<bar>n\<bar> :: rat) < pow2 53" by (simp add: pow2_def)
  with bl(1) have "pow2 (b - 1) < pow2 53" by simp
  then have b53: "b \<le> 53" using pow2_less_cancel [of "b - 1" 53] by simp
  have lo: "pow2 (b - 1 + j) \<le> ?a"
    using bl(1) pow2_pos [of j] by (simp add: pow2_add)
  have up: "?a < pow2 (b - 1 + j + 1)"
    using bl(2) pow2_pos [of j] pow2_add [of b j] by (simp add: add.commute)
  have il: "ilog2 ?a = b - 1 + j" by (rule ilog2_unique [OF apos lo up])
  define e where "e = max (b - 1 + j) (- 1022)"
  have m: "0 \<le> j - e + 52" using b53 assms(3) by (simp add: e_def)
  have "pow2 j / pow2 (e - 52) = pow2 (j - e + 52)"
    using pow2_diff [of j "e - 52"] by (simp add: algebra_simps)
  also have "\<dots> = 2 ^ nat (j - e + 52)" using m by (simp add: pow2_def)
  finally have pe: "pow2 j / pow2 (e - 52) = 2 ^ nat (j - e + 52)" .
  have "?a / pow2 (e - 52) = of_int \<bar>n\<bar> * (pow2 j / pow2 (e - 52))" by simp
  then have q: "?a / pow2 (e - 52) = of_int (\<bar>n\<bar> * 2 ^ nat (j - e + 52))"
    by (simp only: pe of_int_mult of_int_power of_int_numeral)
  have r: "of_int (round_half_even (?a / pow2 (e - 52))) * pow2 (e - 52) = ?a"
  proof -
    have "of_int (round_half_even (?a / pow2 (e - 52))) = ?a / pow2 (e - 52)"
      unfolding q round_half_even_of_int ..
    then show ?thesis using pow2_pos [of "e - 52"] by simp
  qed
  have "pow2 (b + j) \<le> pow2 1024" using b53 assms(4) by (intro pow2_mono) simp
  with up have no: "\<not> pow2 1024 \<le> ?a" by simp
  have sgn: "0 < ?x \<longleftrightarrow> 0 < n" using pow2_pos [of j] by (simp add: zero_less_mult_iff)
  have "to_double ?x = JNum (if 0 < ?x then ?a else - ?a)"
    using x0 no r by (simp only: to_double_def ax il Let_def e_def [symmetric] if_False)
  also have "(if 0 < ?x then ?a else - ?a) = ?x"
    using assms(1) by (cases "0 < n") (simp_all add: sgn)
  finally show ?thesis .
qed

lemma to_double_of_int:
  assumes "\<bar>n\<bar> < 2 ^ 53"
  shows "to_double (of_int n) = JNum (of_int n)"
proof (cases "n = 0")
  case True
  then show ?thesis by (simp add: to_double_def)
next
  case False
  from to_double_exact [OF False assms, of 0] show ?thesis by (simp add: pow2_def)
qed

lemma to_double_numeral [simp]:
  "numeral k < (2 ^ 53 :: int) \<Longrightarrow> to_double (numeral k) = JNum (numeral k)"
  using to_double_of_int [of "numeral k"] by simp

lemma to_double_half:
  assumes "\<bar>n\<bar> < 2 ^ 53"
  shows "to_double (of_int n / 2) = JNum (of_int n / 2)"
proof (cases "n = 0")
  case True
  then show ?thesis by (simp add: to_double_def)
next
  case False
  from to_double_exact [OF False assms, of "- 1"] show ?thesis by (simp add: pow2_def)
qed




subsection \<open>Floor and the 32-bit wrap\<close>

lemma floor_numeral_div: "\<lfloor>numeral a / numeral b :: rat\<rfloor> = numeral a div numeral b"
  using floor_divide_of_int_eq [of "numeral a" "numeral b", where ?'a = rat] by simp



subsection \<open>The invariant holds once the call has run and after every event\<close>

lemma count_list_replicate: "count_list (replicate n x) y = (if x = y then n else 0)"
  by (induction n) auto

lemma filter_replicate_False: "\<not> P x \<Longrightarrow> filter P (replicate n x) = []"
  by (induction n) auto

lemma beginCapture_inv:
  "inv (fst (beginCapture dims req w)) w (snd (beginCapture dims req w))"
  by (cases "customizeTexture req"; cases "antialiasing req")
     (simp_all add: beginCapture_def Let_def inv_def idle_def outstanding_def sceneSetup_def
        renderToTexture_def renderWhenReady_def incrementRenderId_def resetCachedMaterial_def)

lemma inv_EffectCreated: "inv cl w st \<Longrightarrow> inv cl w (step env cl (EffectCreated r) st)"
  by (auto simp: inv_def onEffectCreated_def outstanding_def sceneSetup_def
        renderToTexture_def renderWhenReady_def incrementRenderId_def resetCachedMaterial_def
      split: if_splits)

lemma inv_EffectCompiled: "inv cl w st \<Longrightarrow> inv cl w (step env cl EffectCompiled st)"
  by (auto simp: inv_def outstanding_def sceneSetup_def
        renderToTexture_def renderWhenReady_def incrementRenderId_def resetCachedMaterial_def
      split: if_splits)

lemma inv_RetryError: "inv cl w st \<Longrightarrow> inv cl w (step env cl RetryError st)"
  by (auto simp: inv_def onError_def outstanding_def sceneSetup_def split: if_splits)

lemma inv_RetryTick: "inv cl w st \<Longrightarrow> inv cl w (step env cl (RetryTick r) st)"
  by (cases "render env (swapScene cl (world st))")
     (auto simp: inv_def onSuccess_def restoreScene_def Let_def outstanding_def sceneSetup_def
      split: if_splits)

lemma funpow_onEndFrame_direct:
  assumes "sFinalWidth (cl_size cl) = sWidth (cl_size cl) \<and>
           sFinalHeight (cl_size cl) = sHeight (cl_size cl)"
  shows "(onEndFrame cl ^^ n) s =
           s\<lparr>pendingReadPixels := pendingReadPixels s + n,
             calls := calls s @ replicate n ReadPixels\<rparr>"
proof (induction n)
  case 0
  show ?case by simp
next
  case (Suc n)
  show ?case
    unfolding funpow.simps o_apply Suc using assms
    by (simp add: onEndFrame_def replicate_append_same)
qed

lemma funpow_onEndFrame_resize:
  assumes "\<not> (sFinalWidth (cl_size cl) = sWidth (cl_size cl) \<and>
              sFinalHeight (cl_size cl) = sHeight (cl_size cl))"
  shows "(onEndFrame cl ^^ n) s =
           s\<lparr>pendingImport := pendingImport s + n,
             calls := calls s @ replicate n (ImportPassFragment (isWebGPU (engine (world s))))\<rparr>"
proof (induction n)
  case 0
  show ?case by simp
next
  case (Suc n)
  show ?case
    unfolding funpow.simps o_apply Suc using assms
    by (auto simp: onEndFrame_def replicate_append_same)
qed

lemma inv_EndFrame: "inv cl w st \<Longrightarrow> inv cl w (step env cl EndFrame st)"
  by (cases "sFinalWidth (cl_size cl) = sWidth (cl_size cl) \<and>
             sFinalHeight (cl_size cl) = sHeight (cl_size cl)")
     (simp_all add: funpow_onEndFrame_direct funpow_onEndFrame_resize inv_def outstanding_def
        sceneSetup_def count_list_replicate filter_replicate_False)

lemma inv_ReadPixels: "inv cl w st \<Longrightarrow> inv cl w (step env cl (ReadPixelsSettled r) st)"
  by (cases r) (auto simp: inv_def onReadPixels_def Let_def outstanding_def sceneSetup_def)

lemma inv_Import: "inv cl w st \<Longrightarrow> inv cl w (step env cl (ImportSettled ok) st)"
  by (auto simp: inv_def onImport_def outstanding_def sceneSetup_def)

lemma inv_ApplyPostProcess:
  "inv cl w st \<Longrightarrow> inv cl w (step env cl (ApplyPostProcessSettled ok) st)"
  by (auto simp: inv_def onApplyPostProcess_def outstanding_def sceneSetup_def)

lemma inv_ReadTexturePixels:
  "inv cl w st \<Longrightarrow> inv cl w (step env cl (ReadTexturePixelsSettled r) st)"
  by (cases r) (auto simp: inv_def onReadTexturePixels_def Let_def outstanding_def sceneSetup_def)

lemma inv_step: "inv cl w st \<Longrightarrow> inv cl w (step env cl e st)"
  by (cases e)
     (simp_all only: inv_EffectCreated inv_EffectCompiled inv_RetryTick inv_RetryError
        inv_EndFrame inv_ReadPixels inv_Import inv_ApplyPostProcess inv_ReadTexturePixels)

lemma inv_run: "inv cl w st \<Longrightarrow> inv cl w (run env cl es st)"
  by (induction es arbitrary: st) (simp_all add: inv_step)

lemma run_append: "run env cl (es @ es') st = run env cl es' (run env cl es st)"
  by (induction es arbitrary: st) simp_all

lemma Create_valid:
  assumes "sHeight (resolvedSize env req w) \<noteq> 0" "sWidth (resolvedSize env req w) \<noteq> 0"
  shows "CreateScreenshotUsingRenderTarget env req w =
           (Some (fst (beginCapture (resolvedSize env req w) req w)),
            snd (beginCapture (resolvedSize env req w) req w))"
  using assms by (simp add: CreateScreenshotUsingRenderTarget_def Let_def split_def)

lemma Create_invalid:
  assumes "sHeight (resolvedSize env req w) = 0 \<or> sWidth (resolvedSize env req w) = 0"
  shows "CreateScreenshotUsingRenderTarget env req w =
           (None, (idle w)\<lparr>calls := [LoggerError invalid_size]\<rparr>)"
  using assms by (auto simp: CreateScreenshotUsingRenderTarget_def Let_def)

lemma capture_after_valid:
  assumes "sHeight (resolvedSize env req w) \<noteq> 0" "sWidth (resolvedSize env req w) \<noteq> 0"
  shows "capture_after env req w es =
           run env (fst (beginCapture (resolvedSize env req w) req w)) es
             (snd (beginCapture (resolvedSize env req w) req w))"
  by (simp add: capture_after_def Create_valid [OF assms])

lemma capture_after_invalid:
  assumes "sHeight (resolvedSize env req w) = 0 \<or> sWidth (resolvedSize env req w) = 0"
  shows "capture_after env req w es = (idle w)\<lparr>calls := [LoggerError invalid_size]\<rparr>"
  by (simp add: capture_after_def Create_invalid [OF assms])

lemma capture_after_inv:
  assumes "sHeight (resolvedSize env req w) \<noteq> 0" "sWidth (resolvedSize env req w) \<noteq> 0"
  shows "inv (fst (beginCapture (resolvedSize env req w) req w)) w (capture_after env req w es)"
  unfolding capture_after_valid [OF assms] by (rule inv_run) (rule beginCapture_inv)

lemma capture_after_append:
  assumes "sHeight (resolvedSize env req w) \<noteq> 0" "sWidth (resolvedSize env req w) \<noteq> 0"
  shows "capture_after env req w (es @ es') =
           run env (fst (beginCapture (resolvedSize env req w) req w)) es'
             (capture_after env req w es)"
  by (simp add: capture_after_valid [OF assms] run_append)

subsection \<open>Evaluation on the concrete inputs\<close>

lemmas eval_defs = capture_after_def CreateScreenshotUsingRenderTarget_def resolvedSize_def
  GetScreenshotSize_def ComputeScreenshotSize_def floor_if_truthy_def wrap32_def
  beginCapture_def Let_def split_def idle_def renderToTexture_def renderWhenReady_def
  incrementRenderId_def resetCachedMaterial_def onSuccess_def swapScene_def restoreScene_def
  onError_def onEndFrame_def onReadPixels_def onImport_def onApplyPostProcess_def
  onReadTexturePixels_def onEffectCreated_def demoEnv_def demoWorld_def demoEngine_def
  demoRequest_def throwingEnv_def throwingDumpEnv_def floor_numeral_div captureRenderWidth_def
  captureRenderHeight_def skippingWorld_def widthZero_def resized_def hugePrecision_def
  antialiased_def


subsection \<open>The state that the call reaches, and the calls made so far\<close>

lemma beginCapture_closure:
  "cl_size (fst (beginCapture dims req w)) = dims"
  "cl_req (fst (beginCapture dims req w)) = req"
  by (simp_all add: beginCapture_def Let_def split_def)

lemma beginCapture_start:
  "renderToTextureCalls (snd (beginCapture dims req w)) = (if antialiasing req then 0 else 1)"
  "retries (snd (beginCapture dims req w)) = (if antialiasing req then 0 else 1)"
  "fxaaObserver (snd (beginCapture dims req w)) = antialiasing req"
  "onCompiled (snd (beginCapture dims req w)) = False"
  "NewRenderTargetTexture (sWidth dims) (sHeight dims)
     \<in> set (calls (snd (beginCapture dims req w)))"
  by (simp_all add: beginCapture_def Let_def split_def idle_def renderToTexture_def
        renderWhenReady_def)

lemma invalid_calls:
  assumes "sHeight (resolvedSize env req w) = 0 \<or> sWidth (resolvedSize env req w) = 0"
  shows "calls (capture_after env req w es) = [LoggerError invalid_size]"
  by (simp add: capture_after_invalid [OF assms])

lemma rendered_valid:
  assumes "SceneRender \<in> set (calls (capture_after env req w es))"
  shows "sHeight (resolvedSize env req w) \<noteq> 0 \<and> sWidth (resolvedSize env req w) \<noteq> 0"
  using assms invalid_calls [of env req w es] by auto

lemma calls_step: "set (calls st) \<subseteq> set (calls (step env cl e st))"
proof (cases e)
  case EndFrame
  have 1: "set (calls s) \<subseteq> set (calls (onEndFrame cl s))" for s
    by (auto simp: onEndFrame_def)
  have "set (calls s) \<subseteq> set (calls ((onEndFrame cl ^^ n) s))" for n s
  proof (induction n)
    case 0
    show ?case by simp
  next
    case (Suc n)
    with 1 [of "(onEndFrame cl ^^ n) s"] show ?case by auto
  qed
  from this [of "st\<lparr>endFrameObservers := 0\<rparr>"] EndFrame show ?thesis by simp
qed (auto simp: onEffectCreated_def renderToTexture_def renderWhenReady_def Let_def
       onSuccess_def split_def onError_def onReadPixels_def onImport_def
       onApplyPostProcess_def onReadTexturePixels_def split: option.splits)

lemma calls_run: "set (calls st) \<subseteq> set (calls (run env cl es st))"
proof (induction es arbitrary: st)
  case Nil
  show ?case by simp
next
  case (Cons e es)
  from calls_step [of st env cl e] Cons [of "step env cl e st"] show ?case by auto
qed


lemma inv_counts:
  assumes "inv cl w st"
  shows "count_list (calls st) SceneRender \<le> renderToTextureCalls st"
    and "outstanding st \<le> count_list (calls st) SceneRender"
    and "count_list (calls st) DisposeRenderTargetTexture \<le> count_list (calls st) SceneRender"
    and "length (filter isNewRenderTargetTexture (calls st)) = 1"
  using assms unfolding inv_def by linarith+

subsection \<open>How often \<open>renderToTexture\<close> executes\<close>

text \<open>
  Only the notification of the observer and the completion of a compilation make
  \<open>renderToTexture\<close> execute: once the observer has found the effect ready it never
  executes again, and once the observer has assigned \<open>onCompiled\<close> it executes at every
  completion.
\<close>

lemma step_renderToTexture_fields:
  assumes "\<not> fxaaObserver st \<or> (\<forall>r. e \<noteq> EffectCreated r)"
    and "\<not> onCompiled st \<or> e \<noteq> EffectCompiled"
  shows "fxaaObserver (step env cl e st) = fxaaObserver st \<and>
         onCompiled (step env cl e st) = onCompiled st \<and>
         renderToTextureCalls (step env cl e st) = renderToTextureCalls st"
proof (cases e)
  case EndFrame
  show ?thesis
    by (cases "sFinalWidth (cl_size cl) = sWidth (cl_size cl) \<and>
               sFinalHeight (cl_size cl) = sHeight (cl_size cl)")
       (simp_all add: EndFrame funpow_onEndFrame_direct funpow_onEndFrame_resize)
qed (use assms in \<open>auto simp: onSuccess_def Let_def split_def onError_def onReadPixels_def
      onImport_def onApplyPostProcess_def onReadTexturePixels_def split: option.splits\<close>)

lemma run_renderToTexture_settled:
  assumes "\<not> fxaaObserver st" "\<not> onCompiled st"
  shows "renderToTextureCalls (run env cl es st) = renderToTextureCalls st"
  using assms
proof (induction es arbitrary: st)
  case Nil
  show ?case by simp
next
  case (Cons e es)
  from step_renderToTexture_fields [of st e env cl] Cons.prems
  have "\<not> fxaaObserver (step env cl e st)" "\<not> onCompiled (step env cl e st)"
    "renderToTextureCalls (step env cl e st) = renderToTextureCalls st" by auto
  with Cons.IH [of "step env cl e st"] show ?case by simp
qed

lemma run_renderToTexture_compiling:
  assumes "\<not> fxaaObserver st" "EffectCompiled \<notin> set es"
  shows "renderToTextureCalls (run env cl es st) = renderToTextureCalls st \<and>
         onCompiled (run env cl es st) = onCompiled st \<and>
         \<not> fxaaObserver (run env cl es st)"
  using assms
proof (induction es arbitrary: st)
  case Nil
  then show ?case by simp
next
  case (Cons e es)
  from step_renderToTexture_fields [of st e env cl] Cons.prems
  have s: "\<not> fxaaObserver (step env cl e st)"
    "onCompiled (step env cl e st) = onCompiled st"
    "renderToTextureCalls (step env cl e st) = renderToTextureCalls st" by auto
  from Cons.IH [of "step env cl e st"] s Cons.prems show ?case by simp
qed


lemma run_renderToTexture_bound:
  assumes "fxaaObserver st \<longrightarrow> \<not> onCompiled st"
  shows "renderToTextureCalls (run env cl es st) \<le> renderToTextureCalls st +
           (if fxaaObserver st then max 1 (count_list es EffectCompiled)
            else if onCompiled st then count_list es EffectCompiled else 0)"
  using assms
proof (induction es arbitrary: st)
  case Nil
  show ?case by simp
next
  case (Cons e es)
  show ?case
  proof (cases "(fxaaObserver st \<and> (\<exists>r. e = EffectCreated r)) \<or> (onCompiled st \<and> e = EffectCompiled)")
    case False
    with step_renderToTexture_fields [of st e env cl]
    have s: "fxaaObserver (step env cl e st) = fxaaObserver st"
      "onCompiled (step env cl e st) = onCompiled st"
      "renderToTextureCalls (step env cl e st) = renderToTextureCalls st" by auto
    from Cons.IH [of "step env cl e st"] s Cons.prems show ?thesis by auto
  next
    case True
    then consider r where "fxaaObserver st" "e = EffectCreated r"
      | "onCompiled st" "e = EffectCompiled" by blast
    then show ?thesis
    proof cases
      case 1
      with Cons.prems have nc: "\<not> onCompiled st" by simp
      show ?thesis
      proof (cases r)
        case True
        with 1 nc have s: "\<not> fxaaObserver (step env cl e st)" "\<not> onCompiled (step env cl e st)"
          "renderToTextureCalls (step env cl e st) = renderToTextureCalls st + 1"
          by (simp_all add: onEffectCreated_def renderToTexture_def renderWhenReady_def)
        from Cons.IH [of "step env cl e st"] s 1 show ?thesis by simp
      next
        case False
        with 1 nc have s: "\<not> fxaaObserver (step env cl e st)" "onCompiled (step env cl e st)"
          "renderToTextureCalls (step env cl e st) = renderToTextureCalls st"
          by (simp_all add: onEffectCreated_def)
        from Cons.IH [of "step env cl e st"] s 1 show ?thesis by simp
      qed
    next
      case 2
      with Cons.prems have no: "\<not> fxaaObserver st" by auto
      from 2 no have s: "\<not> fxaaObserver (step env cl e st)" "onCompiled (step env cl e st)"
        "renderToTextureCalls (step env cl e st) = renderToTextureCalls st + 1"
        by (simp_all add: renderToTexture_def renderWhenReady_def)
      from Cons.IH [of "step env cl e st"] s 2 no show ?thesis by simp
    qed
  qed
qed

lemma capture_renderToTexture_bound:
  assumes "sHeight (resolvedSize env req w) \<noteq> 0" "sWidth (resolvedSize env req w) \<noteq> 0"
  shows "renderToTextureCalls (capture_after env req w es) \<le> max 1 (count_list es EffectCompiled)"
  using run_renderToTexture_bound [of "snd (beginCapture (resolvedSize env req w) req w)" env
      "fst (beginCapture (resolvedSize env req w) req w)" es]
  by (simp add: capture_after_valid [OF assms] beginCapture_start split: if_splits)

lemma capture_renderToTexture_once:
  assumes "sHeight (resolvedSize env req w) \<noteq> 0" "sWidth (resolvedSize env req w) \<noteq> 0"
    and "\<not> antialiasing req \<or> count_list es EffectCompiled \<le> 1"
  shows "renderToTextureCalls (capture_after env req w es) \<le> 1"
proof (cases "antialiasing req")
  case True
  with assms(3) capture_renderToTexture_bound [OF assms(1,2), of es] show ?thesis by simp
next
  case False
  with run_renderToTexture_settled [of "snd (beginCapture (resolvedSize env req w) req w)" env
      "fst (beginCapture (resolvedSize env req w) req w)" es]
  show ?thesis by (simp add: capture_after_valid [OF assms(1,2)] beginCapture_start)
qed

subsection \<open>After the render pass\<close>

lemma direct_path:
  assumes "0 < endFrameObservers s"
    "sFinalWidth (cl_size cl) = sWidth (cl_size cl) \<and> sFinalHeight (cl_size cl) = sHeight (cl_size cl)"
  shows "calls (run env cl [EndFrame, ReadPixelsSettled (Some d)] s)
         = calls s @ replicate (endFrameObservers s) ReadPixels @
           [DumpData (sWidth (cl_size cl)) (sHeight (cl_size cl)) d (mimeType (cl_req cl))
              (fileName (cl_req cl)) (quality (cl_req cl))] @
           (if dumpDataThrows env (sWidth (cl_size cl)) (sHeight (cl_size cl)) d then []
            else [DisposeRenderTargetTexture])"
  using assms by (simp add: funpow_onEndFrame_direct onReadPixels_def Let_def)

lemma resize_path:
  assumes "0 < endFrameObservers s"
    "\<not> (sFinalWidth (cl_size cl) = sWidth (cl_size cl) \<and> sFinalHeight (cl_size cl) = sHeight (cl_size cl))"
  shows "calls (run env cl [EndFrame, ImportSettled True, ApplyPostProcessSettled True,
           ReadTexturePixelsSettled (Some d)] s)
         = calls s @
           replicate (endFrameObservers s) (ImportPassFragment (isWebGPU (engine (world s)))) @
           [ApplyPostProcess (sFinalWidth (cl_size cl)) (sFinalHeight (cl_size cl)),
            ReadTexturePixels (sFinalWidth (cl_size cl)) (sFinalHeight (cl_size cl)),
            DumpData (sFinalWidth (cl_size cl)) (sFinalHeight (cl_size cl)) d
              (mimeType (cl_req cl)) (fileName (cl_req cl)) (quality (cl_req cl))] @
           (if dumpDataThrows env (sFinalWidth (cl_size cl)) (sFinalHeight (cl_size cl)) d
            then [] else [DisposeInternalTexture])"
  using assms
  by (simp add: funpow_onEndFrame_resize onImport_def onApplyPostProcess_def
        onReadTexturePixels_def Let_def)

subsection \<open>Size resolution\<close>





subsection \<open>The extension map\<close>

lemma Map_has_get: "Map_has k m \<longleftrightarrow> Map_get k m \<noteq> None"
  by (simp add: Map_has_def Map_get_def map_of_eq_None_iff)

lemma Map_get_delete:
  "Map_get n (snd (Map_delete k m)) = (if n = k then None else Map_get n m)"
  by (induction m) (auto simp: Map_delete_def Map_get_def)

lemma map_of_replace:
  "map_of (map (\<lambda>e. if fst e = k then (k, v) else e) m) n
     = (if n = k \<and> map_of m k \<noteq> None then Some v else map_of m n)"
  by (induction m) auto

lemma map_of_append_new:
  assumes "map_of m k = None"
  shows "map_of (m @ [(k, v)]) n = (if n = k then Some v else map_of m n)"
  using assms by (auto simp: map_add_def split: option.splits)

lemma Map_get_set: "Map_get n (Map_set k v m) = (if n = k then Some v else Map_get n m)"
proof (cases "Map_has k m")
  case True
  then have "map_of m k \<noteq> None" by (simp add: Map_has_def map_of_eq_None_iff)
  with True show ?thesis by (simp add: Map_set_def Map_get_def map_of_replace)
next
  case False
  then have "map_of m k = None" by (simp add: Map_has_def map_of_eq_None_iff)
  with False show ?thesis
    by (simp only: Map_set_def Map_get_def map_of_append_new if_False)
qed

lemma count_key_delete_set:
  "length (filter (\<lambda>e. fst e = k) (Map_set k v (snd (Map_delete k m)))) = 1"
  by (simp add: Map_set_def Map_delete_def Map_has_def image_iff)

section \<open>Size resolution: the claims\<close>

text \<open>
  C6. \<open>GetScreenshotSize\<close> resolves the number 256 to width, height, final width and
  final height 256, whatever the engine and the camera; and it resolves the object
  \<open>{width: 300}\<close>, for a camera of aspect ratio 2, to width 300, height
  \<open>round (300 / 2) = 150\<close>, final width 300 and final height 150.
\<close>

theorem GetScreenshotSize_number_and_width_only:
  "GetScreenshotSize aspect renderWidth (SizeNumber (JNum 256))
     = \<lparr>sHeight = 256, sWidth = 256, sFinalWidth = 256, sFinalHeight = 256\<rparr> \<and>
   GetScreenshotSize (JNum 2) renderWidth
       (SizeObject \<lparr>precision = None, width = Some (JNum 300), height = None,
                    finalWidth = None, finalHeight = None\<rparr>)
     = \<lparr>sHeight = 150, sWidth = 300, sFinalWidth = 300, sFinalHeight = 150\<rparr>"
  by (simp add: GetScreenshotSize_def ComputeScreenshotSize_def floor_if_truthy_def
        wrap32_def Let_def floor_numeral_div)




section \<open>The extension registry: the claim\<close>

text \<open>
  C9. After \<open>registerGLTFExtension name isGLTFExtension factory\<close> the name is bound to
  the new registration, in exactly one entry, whatever was registered under it before;
  every other name is bound as before; the only other effect is one logged warning when
  the name was already registered (the function has no error result).
  \<open>unregisterGLTFExtension name\<close> returns true exactly when the name was registered, and
  afterwards the name is not registered, every other name is bound as before and nothing
  is logged.
\<close>

theorem register_replaces_unregister_reports:
  "Map_get name (RegisteredGLTFExtensions (registerGLTFExtension name g fac r))
     = Some \<lparr>isGLTFExtension = g, factory = fac\<rparr> \<and>
   length (filter (\<lambda>e. fst e = name)
     (RegisteredGLTFExtensions (registerGLTFExtension name g fac r))) = 1 \<and>
   (\<forall>n. n \<noteq> name \<longrightarrow>
      Map_get n (RegisteredGLTFExtensions (registerGLTFExtension name g fac r))
        = Map_get n (RegisteredGLTFExtensions r)) \<and>
   warnings (registerGLTFExtension name g fac r)
     = warnings r @
       (if Map_has name (RegisteredGLTFExtensions r) then [already_exists name] else []) \<and>
   fst (unregisterGLTFExtension name r) = Map_has name (RegisteredGLTFExtensions r) \<and>
   \<not> Map_has name (RegisteredGLTFExtensions (snd (unregisterGLTFExtension name r))) \<and>
   (\<forall>n. n \<noteq> name \<longrightarrow>
      Map_get n (RegisteredGLTFExtensions (snd (unregisterGLTFExtension name r)))
        = Map_get n (RegisteredGLTFExtensions r)) \<and>
   warnings (snd (unregisterGLTFExtension name r)) = warnings r"
proof -
  have u: "unregisterGLTFExtension name r =
      (Map_has name (RegisteredGLTFExtensions r),
       r\<lparr>RegisteredGLTFExtensions := snd (Map_delete name (RegisteredGLTFExtensions r))\<rparr>)"
    by (simp add: unregisterGLTFExtension_def Map_delete_def)
  have reg: "RegisteredGLTFExtensions (registerGLTFExtension name g fac r) =
      Map_set name \<lparr>isGLTFExtension = g, factory = fac\<rparr>
        (snd (Map_delete name (RegisteredGLTFExtensions r)))"
    by (simp add: registerGLTFExtension_def u)
  have w: "warnings (registerGLTFExtension name g fac r)
     = warnings r @
       (if Map_has name (RegisteredGLTFExtensions r) then [already_exists name] else [])"
    by (simp add: registerGLTFExtension_def u)
  show ?thesis
    by (simp add: reg w u Map_get_set Map_get_delete count_key_delete_set Map_has_get)
qed

theorem register_replaces_unregister_reports_witness:
  "Map_get ''KHR_a''
     (RegisteredGLTFExtensions
       (registerGLTFExtension ''KHR_a'' True (2::nat)
         \<lparr>RegisteredGLTFExtensions =
            [(''KHR_a'', \<lparr>isGLTFExtension = False, factory = 1\<rparr>),
             (''KHR_b'', \<lparr>isGLTFExtension = True, factory = 7\<rparr>)],
          warnings = []\<rparr>))
     = Some \<lparr>isGLTFExtension = True, factory = 2\<rparr> \<and>
   Map_get ''KHR_b''
     (RegisteredGLTFExtensions
       (registerGLTFExtension ''KHR_a'' True (2::nat)
         \<lparr>RegisteredGLTFExtensions =
            [(''KHR_a'', \<lparr>isGLTFExtension = False, factory = 1\<rparr>),
             (''KHR_b'', \<lparr>isGLTFExtension = True, factory = 7\<rparr>)],
          warnings = []\<rparr>))
     = Some \<lparr>isGLTFExtension = True, factory = 7\<rparr> \<and>
   fst (unregisterGLTFExtension ''KHR_b''
         \<lparr>RegisteredGLTFExtensions =
            [(''KHR_a'', \<lparr>isGLTFExtension = False, factory = (1::nat)\<rparr>),
             (''KHR_b'', \<lparr>isGLTFExtension = True, factory = 7\<rparr>)],
          warnings = []\<rparr>)"
proof -
  let ?r = "\<lparr>RegisteredGLTFExtensions =
            [(''KHR_a'', \<lparr>isGLTFExtension = False, factory = (1::nat)\<rparr>),
             (''KHR_b'', \<lparr>isGLTFExtension = True, factory = 7\<rparr>)],
          warnings = []\<rparr>"
  have ne: "''KHR_b'' \<noteq> ''KHR_a''" by simp
  note t = register_replaces_unregister_reports [of "''KHR_a''" True 2 ?r]
  note t2 = register_replaces_unregister_reports [of "''KHR_b''" True 2 ?r]
  have a: "Map_get ''KHR_b'' (RegisteredGLTFExtensions (registerGLTFExtension ''KHR_a'' True 2 ?r))
      = Map_get ''KHR_b'' (RegisteredGLTFExtensions ?r)"
    using t [THEN conjunct2, THEN conjunct2, THEN conjunct1, THEN spec, THEN mp, OF ne] .
  have b: "fst (unregisterGLTFExtension ''KHR_b'' ?r)
      = Map_has ''KHR_b'' (RegisteredGLTFExtensions ?r)"
    using t2 by blast
  show ?thesis
    using t [THEN conjunct1] a b by (simp add: Map_get_def Map_has_def)
qed

section \<open>A refused size\<close>

text \<open>
  C3 (as amended). For every size that resolves to zero in either dimension the call
  logs the error \<open>Invalid 'size' parameter !\<close> and returns at once: it leaves no closure
  behind, so no later event has any effect, nothing is thrown, and the world is the one
  before the call. The size \<open>{width: 0}\<close> resolves as the empty size object \<open>{}\<close> does,
  from the engine's render width and the aspect ratio, so it is refused only when that
  size is zero.
\<close>

theorem invalid_size_logged_nothing_changed:
  assumes "sHeight (resolvedSize env req w) = 0 \<or> sWidth (resolvedSize env req w) = 0"
  shows "CreateScreenshotUsingRenderTarget env req w
           = (None, (idle w)\<lparr>calls := [LoggerError invalid_size]\<rparr>) \<and>
         capture_after env req w es = (idle w)\<lparr>calls := [LoggerError invalid_size]\<rparr> \<and>
         world (capture_after env req w es) = w \<and>
         thrown (capture_after env req w es) = 0 \<and>
         GetScreenshotSize a rw widthZero
           = GetScreenshotSize a rw (SizeObject \<lparr>precision = None, width = None, height = None,
               finalWidth = None, finalHeight = None\<rparr>)"
  using Create_invalid [OF assms] capture_after_invalid [OF assms, of es]
  by (simp add: idle_def GetScreenshotSize_def ComputeScreenshotSize_def widthZero_def)

theorem invalid_size_logged_nothing_changed_witness:
  "capture_after demoEnv (demoRequest (SizeNumber (JNum 0))) demoWorld [RetryTick True, EndFrame]
     = (idle demoWorld)\<lparr>calls := [LoggerError invalid_size]\<rparr>"
proof -
  have z: "sHeight (resolvedSize demoEnv (demoRequest (SizeNumber (JNum 0))) demoWorld) = 0 \<or>
           sWidth (resolvedSize demoEnv (demoRequest (SizeNumber (JNum 0))) demoWorld) = 0"
    by (simp add: eval_defs)
  from invalid_size_logged_nothing_changed [OF z] show ?thesis by simp
qed

text \<open>
  C3 as stated fails at \<open>{width: 0}\<close>: on a canvas of 800 by 400 it resolves to 800 by
  400, nothing is logged, a texture is allocated and \<open>skipFrameRender\<close> is set.
\<close>

theorem width_zero_is_captured_at_render_size:
  "resolvedSize demoEnv (demoRequest widthZero) demoWorld
     = \<lparr>sHeight = 400, sWidth = 800, sFinalWidth = 800, sFinalHeight = 400\<rparr> \<and>
   calls (capture_after demoEnv (demoRequest widthZero) demoWorld [])
     = [NewRenderTargetTexture 800 400] \<and>
   \<not> skipFrameRender (engine demoWorld) \<and>
   skipFrameRender (engine (world (capture_after demoEnv (demoRequest widthZero) demoWorld [])))"
  by (simp add: eval_defs)

section \<open>The overridden accessors\<close>



section \<open>Antialiasing: waiting for the effect\<close>




section \<open>Restoration after the render pass\<close>

text \<open>
  C1 (as amended). For every capture that has reached its render pass, whatever
  \<open>scene.render()\<close> did to the world and whether it returned or threw (\<open>render env\<close> is
  arbitrary): the scene's \<open>activeCamera\<close>, \<open>activeCameras\<close>, \<open>spritesEnabled\<close> and mesh list
  and the camera's \<open>outputRenderTarget\<close> have the values they had before the capture, the
  engine's \<open>getRenderWidth\<close> and \<open>getRenderHeight\<close> are the functions they were before the
  capture, and \<open>skipFrameRender\<close> is false (it is set to false, not restored).
\<close>

theorem scene_and_accessors_restored_after_render_pass:
  assumes "st = capture_after env req w es" and "SceneRender \<in> set (calls st)"
  shows "activeCamera (scene (world st)) = activeCamera (scene w) \<and>
         activeCameras (scene (world st)) = activeCameras (scene w) \<and>
         outputRenderTarget (camera (world st)) = outputRenderTarget (camera w) \<and>
         spritesEnabled (scene (world st)) = spritesEnabled (scene w) \<and>
         meshes (scene (world st)) = meshes (scene w) \<and>
         getRenderWidth (engine (world st)) = getRenderWidth (engine w) \<and>
         getRenderHeight (engine (world st)) = getRenderHeight (engine w) \<and>
         skipFrameRender (engine (world st)) = False"
proof -
  from assms have valid: "sHeight (resolvedSize env req w) \<noteq> 0"
    "sWidth (resolvedSize env req w) \<noteq> 0"
    using rendered_valid by blast+
  from capture_after_inv [OF valid] assms(1)
  have "inv (fst (beginCapture (resolvedSize env req w) req w)) w st" by simp
  with assms(2) show ?thesis
    unfolding inv_def sceneSetup_def by simp
qed

text \<open>
  The witness: a render pass that overwrites the active camera, the mesh list, the output
  target and \<open>skipFrameRender\<close> and then throws.
\<close>

theorem scene_and_accessors_restored_after_render_pass_witness:
  "thrown (capture_after throwingEnv (demoRequest (SizeNumber (JNum 256))) demoWorld
      [RetryTick True]) = 1 \<and>
   activeCamera (scene (world (capture_after throwingEnv (demoRequest (SizeNumber (JNum 256)))
      demoWorld [RetryTick True]))) = Some 1 \<and>
   meshes (scene (world (capture_after throwingEnv (demoRequest (SizeNumber (JNum 256)))
      demoWorld [RetryTick True]))) = [10, 11] \<and>
   outputRenderTarget (camera (world (capture_after throwingEnv
      (demoRequest (SizeNumber (JNum 256))) demoWorld [RetryTick True]))) = None \<and>
   getRenderWidth (engine (world (capture_after throwingEnv
      (demoRequest (SizeNumber (JNum 256))) demoWorld [RetryTick True]))) None False = JNum 800 \<and>
   skipFrameRender (engine (world (capture_after throwingEnv
      (demoRequest (SizeNumber (JNum 256))) demoWorld [RetryTick True]))) = False"
proof -
  let ?st = "capture_after throwingEnv (demoRequest (SizeNumber (JNum 256))) demoWorld
      [RetryTick True]"
  have r: "SceneRender \<in> set (calls ?st)" by (simp add: eval_defs)
  have t: "thrown ?st = 1" by (simp add: eval_defs)
  from scene_and_accessors_restored_after_render_pass [OF refl r] t
  show ?thesis by (simp add: demoWorld_def demoEngine_def)
qed

text \<open>
  C1 as stated fails for \<open>skipFrameRender\<close>: when frame rendering was already skipped
  before the capture, the flag is false after it.
\<close>

theorem skipFrameRender_not_restored:
  "SceneRender \<in> set (calls (capture_after demoEnv (demoRequest (SizeNumber (JNum 256)))
      skippingWorld [RetryTick True])) \<and>
   skipFrameRender (engine skippingWorld) \<and>
   \<not> skipFrameRender (engine (world (capture_after demoEnv
      (demoRequest (SizeNumber (JNum 256))) skippingWorld [RetryTick True])))"
  by (simp add: eval_defs)

section \<open>One texture, render passes, disposal\<close>




section \<open>Readback, direct or through the resize pass\<close>

text \<open>
  C5. From a capture whose retry loop runs: once the condition holds the render pass
  executes and adds its observer of the end of the frame, the only one when no
  antialiasing is requested or the effect has completed at most one compilation. At the
  end of the frame, if the final size equals the captured size, \<open>readPixels\<close> is called on
  the texture (once for each observer) and its data goes to \<open>dumpDataFunc\<close> with the
  captured width and height, after which the texture is disposed unless \<open>dumpDataFunc\<close>
  threw; otherwise the pass shader is imported, \<open>ApplyPostProcess\<close> resizes to the final
  size, the pixels are read at the final size and go to \<open>dumpDataFunc\<close> with the final
  width and height. The texture is allocated at the captured size. The size
  \<open>{width: 100, height: 50, finalWidth: 400, finalHeight: 200}\<close> resolves to a capture of
  100 by 50 and an output of 400 by 200. (The statement holds whatever the render pass
  does, so in particular after a successful one.)
\<close>

theorem readback_direct_or_through_resize:
  assumes "sHeight (resolvedSize env req w) \<noteq> 0" and "sWidth (resolvedSize env req w) \<noteq> 0"
    and "0 < retries (capture_after env req w es)"
  shows
   "NewRenderTargetTexture (sWidth (resolvedSize env req w)) (sHeight (resolvedSize env req w))
      \<in> set (calls (capture_after env req w es)) \<and>
    SceneRender \<in> set (calls (capture_after env req w (es @ [RetryTick True]))) \<and>
    1 \<le> endFrameObservers (capture_after env req w (es @ [RetryTick True])) \<and>
    (\<not> antialiasing req \<or> count_list es EffectCompiled \<le> 1 \<longrightarrow>
       endFrameObservers (capture_after env req w (es @ [RetryTick True])) = 1) \<and>
    (sFinalWidth (resolvedSize env req w) = sWidth (resolvedSize env req w) \<and>
     sFinalHeight (resolvedSize env req w) = sHeight (resolvedSize env req w) \<longrightarrow>
       calls (capture_after env req w
          (es @ [RetryTick True, EndFrame, ReadPixelsSettled (Some d)]))
        = calls (capture_after env req w (es @ [RetryTick True])) @
          replicate (endFrameObservers (capture_after env req w (es @ [RetryTick True])))
            ReadPixels @
          [DumpData (sWidth (resolvedSize env req w)) (sHeight (resolvedSize env req w)) d
             (mimeType req) (fileName req) (quality req)] @
          (if dumpDataThrows env (sWidth (resolvedSize env req w))
                (sHeight (resolvedSize env req w)) d
           then [] else [DisposeRenderTargetTexture])) \<and>
    (\<not> (sFinalWidth (resolvedSize env req w) = sWidth (resolvedSize env req w) \<and>
        sFinalHeight (resolvedSize env req w) = sHeight (resolvedSize env req w)) \<longrightarrow>
       calls (capture_after env req w
          (es @ [RetryTick True, EndFrame, ImportSettled True, ApplyPostProcessSettled True,
                 ReadTexturePixelsSettled (Some d)]))
        = calls (capture_after env req w (es @ [RetryTick True])) @
          replicate (endFrameObservers (capture_after env req w (es @ [RetryTick True])))
            (ImportPassFragment
               (isWebGPU (engine (world (capture_after env req w (es @ [RetryTick True])))))) @
          [ApplyPostProcess (sFinalWidth (resolvedSize env req w))
             (sFinalHeight (resolvedSize env req w)),
           ReadTexturePixels (sFinalWidth (resolvedSize env req w))
             (sFinalHeight (resolvedSize env req w)),
           DumpData (sFinalWidth (resolvedSize env req w))
             (sFinalHeight (resolvedSize env req w)) d (mimeType req) (fileName req)
             (quality req)] @
          (if dumpDataThrows env (sFinalWidth (resolvedSize env req w))
                (sFinalHeight (resolvedSize env req w)) d
           then [] else [DisposeInternalTexture])) \<and>
    GetScreenshotSize a rw
      (SizeObject \<lparr>precision = None, width = Some (JNum 100), height = Some (JNum 50),
                   finalWidth = Some (JNum 400), finalHeight = Some (JNum 200)\<rparr>)
      = \<lparr>sHeight = 50, sWidth = 100, sFinalWidth = 400, sFinalHeight = 200\<rparr>"
proof -
  let ?cl = "fst (beginCapture (resolvedSize env req w) req w)"
  let ?st = "capture_after env req w es"
  let ?after = "capture_after env req w (es @ [RetryTick True])"
  note app = capture_after_append [OF assms(1,2)]
  have n: "NewRenderTargetTexture (sWidth (resolvedSize env req w))
      (sHeight (resolvedSize env req w)) \<in> set (calls ?st)"
    using beginCapture_start(5) [of "resolvedSize env req w" req w]
      calls_run [of "snd (beginCapture (resolvedSize env req w) req w)" env ?cl es]
    by (auto simp: capture_after_valid [OF assms(1,2)])
  have s1: "?after = onSuccess env ?cl (?st\<lparr>retries := retries ?st - 1\<rparr>)"
    using assms(3) by (simp add: app)
  have r: "SceneRender \<in> set (calls ?after)"
    by (simp add: s1 onSuccess_def Let_def split_def)
  have o: "1 \<le> endFrameObservers ?after"
    by (simp add: s1 onSuccess_def Let_def split_def)
  have o1: "endFrameObservers ?after = 1"
    if "\<not> antialiasing req \<or> count_list es EffectCompiled \<le> 1"
  proof -
    from capture_renderToTexture_once [OF assms(1,2), of "es @ [RetryTick True]"] that
    have "renderToTextureCalls ?after \<le> 1" by simp
    with inv_counts(1,2) [OF capture_after_inv [OF assms(1,2), of "es @ [RetryTick True]"]]
    have "outstanding ?after \<le> 1" by linarith
    with o show ?thesis by (simp add: outstanding_def)
  qed
  have e1: "capture_after env req w (es @ [RetryTick True, EndFrame, ReadPixelsSettled (Some d)])
      = run env ?cl [EndFrame, ReadPixelsSettled (Some d)] ?after"
    using capture_after_append [OF assms(1,2), of "es @ [RetryTick True]"
        "[EndFrame, ReadPixelsSettled (Some d)]"] by simp
  have e2: "capture_after env req w (es @ [RetryTick True, EndFrame, ImportSettled True,
        ApplyPostProcessSettled True, ReadTexturePixelsSettled (Some d)])
      = run env ?cl [EndFrame, ImportSettled True, ApplyPostProcessSettled True,
          ReadTexturePixelsSettled (Some d)] ?after"
    using capture_after_append [OF assms(1,2), of "es @ [RetryTick True]"
        "[EndFrame, ImportSettled True, ApplyPostProcessSettled True,
          ReadTexturePixelsSettled (Some d)]"] by simp
  have d: "sFinalWidth (resolvedSize env req w) = sWidth (resolvedSize env req w) \<and>
     sFinalHeight (resolvedSize env req w) = sHeight (resolvedSize env req w) \<longrightarrow>
       calls (capture_after env req w
          (es @ [RetryTick True, EndFrame, ReadPixelsSettled (Some d)]))
        = calls ?after @ replicate (endFrameObservers ?after) ReadPixels @
          [DumpData (sWidth (resolvedSize env req w)) (sHeight (resolvedSize env req w)) d
             (mimeType req) (fileName req) (quality req)] @
          (if dumpDataThrows env (sWidth (resolvedSize env req w))
                (sHeight (resolvedSize env req w)) d
           then [] else [DisposeRenderTargetTexture])"
    using direct_path [of ?after ?cl env d] o unfolding e1 by (simp add: beginCapture_closure)
  have z: "\<not> (sFinalWidth (resolvedSize env req w) = sWidth (resolvedSize env req w) \<and>
        sFinalHeight (resolvedSize env req w) = sHeight (resolvedSize env req w)) \<longrightarrow>
       calls (capture_after env req w
          (es @ [RetryTick True, EndFrame, ImportSettled True, ApplyPostProcessSettled True,
                 ReadTexturePixelsSettled (Some d)]))
        = calls ?after @
          replicate (endFrameObservers ?after)
            (ImportPassFragment (isWebGPU (engine (world ?after)))) @
          [ApplyPostProcess (sFinalWidth (resolvedSize env req w))
             (sFinalHeight (resolvedSize env req w)),
           ReadTexturePixels (sFinalWidth (resolvedSize env req w))
             (sFinalHeight (resolvedSize env req w)),
           DumpData (sFinalWidth (resolvedSize env req w))
             (sFinalHeight (resolvedSize env req w)) d (mimeType req) (fileName req)
             (quality req)] @
          (if dumpDataThrows env (sFinalWidth (resolvedSize env req w))
                (sFinalHeight (resolvedSize env req w)) d
           then [] else [DisposeInternalTexture])"
    using resize_path [of ?after ?cl env d] o unfolding e2 by (simp add: beginCapture_closure)
  have g: "GetScreenshotSize a rw
      (SizeObject \<lparr>precision = None, width = Some (JNum 100), height = Some (JNum 50),
                   finalWidth = Some (JNum 400), finalHeight = Some (JNum 200)\<rparr>)
      = \<lparr>sHeight = 50, sWidth = 100, sFinalWidth = 400, sFinalHeight = 200\<rparr>"
    by (simp add: GetScreenshotSize_def ComputeScreenshotSize_def floor_if_truthy_def wrap32_def)
  from n r o o1 d z g show ?thesis by blast
qed

text \<open>
  The witness: the capture at 100 by 50 with output at 400 by 200, from the call to the
  disposal.
\<close>

theorem readback_direct_or_through_resize_witness:
  "calls (capture_after demoEnv (demoRequest resized) demoWorld
     [RetryTick True, EndFrame, ImportSettled True, ApplyPostProcessSettled True,
      ReadTexturePixelsSettled (Some [9, 8, 7])])
   = [NewRenderTargetTexture 100 50, SceneRender, GetProjectionMatrix,
      ImportPassFragment False, ApplyPostProcess 400 200, ReadTexturePixels 400 200,
      DumpData 400 200 [9, 8, 7] ''image/png'' None None, DisposeInternalTexture]"
proof -
  have rs: "resolvedSize demoEnv (demoRequest resized) demoWorld
      = \<lparr>sHeight = 50, sWidth = 100, sFinalWidth = 400, sFinalHeight = 200\<rparr>"
    by (simp add: eval_defs)
  have v: "sHeight (resolvedSize demoEnv (demoRequest resized) demoWorld) \<noteq> 0"
    "sWidth (resolvedSize demoEnv (demoRequest resized) demoWorld) \<noteq> 0"
    by (simp_all add: rs)
  have p: "0 < retries (capture_after demoEnv (demoRequest resized) demoWorld [])"
    by (simp add: eval_defs)
  have c1: "calls (capture_after demoEnv (demoRequest resized) demoWorld [RetryTick True])
      = [NewRenderTargetTexture 100 50, SceneRender, GetProjectionMatrix]"
    by (simp add: eval_defs)
  have w1: "isWebGPU (engine (world (capture_after demoEnv (demoRequest resized) demoWorld
      [RetryTick True]))) = False"
    by (simp add: eval_defs)
  have m: "mimeType (demoRequest resized) = ''image/png''"
    "fileName (demoRequest resized) = None" "quality (demoRequest resized) = None"
    "dumpDataThrows demoEnv = (\<lambda>w h d. False)"
    by (simp_all add: demoRequest_def demoEnv_def)
  have k: "\<not> antialiasing (demoRequest resized) \<or> count_list ([]::event list) EffectCompiled \<le> 1"
    by simp
  from readback_direct_or_through_resize [OF v p, of "[9, 8, 7]"] k
  show ?thesis by (simp add: rs c1 w1 m)
qed

end
